theory Spec2Isabelle
  imports Main
begin

section \<open>The Ijaw grammar engine (src/backend/ijaw_grammar.py)\<close>

text \<open>
  A shallow embedding of \<^verbatim>\<open>IjawGrammarEngine\<close>: the compiled-in role tables, the
  classifier \<^verbatim>\<open>classify_word\<close>, the per-token translator \<^verbatim>\<open>translate_word\<close>, the
  tagger \<^verbatim>\<open>parse_sentence\<close> and the template cascade \<^verbatim>\<open>generate_translation\<close>.
\<close>

subsection \<open>Python strings\<close>

text \<open>
  A Python \<^verbatim>\<open>str\<close> is a sequence of Unicode code points, so it is modelled as a list of
  natural numbers. \<open>u\<close> reads an ASCII literal; the non-ASCII literals of the source are
  written as code point lists.
\<close>

type_synonym ustr = "nat list"

definition u :: "string \<Rightarrow> ustr" where
  "u s = map of_char s"

text \<open>
  \<^verbatim>\<open>str.lower()\<close>. On a pure ASCII string it maps \<open>A..Z\<close> to \<open>a..z\<close> and keeps
  every other character. On any other string the result is given by the Unicode case tables
  of the Python runtime, which are not part of the repository: they are the parameter \<open>U\<close>
  of every function that lower-cases.
\<close>

definition ascii_lower :: "nat \<Rightarrow> nat" where
  "ascii_lower c = (if 65 \<le> c \<and> c \<le> 90 then c + 32 else c)"

definition lower :: "(ustr \<Rightarrow> ustr) \<Rightarrow> ustr \<Rightarrow> ustr" where
  "lower U s = (if list_all (\<lambda>c. c < 128) s then map ascii_lower s else U s)"

text \<open>
  The characters for which \<^verbatim>\<open>str.isspace()\<close> holds: the ones \<^verbatim>\<open>str.strip()\<close> and
  \<^verbatim>\<open>str.split()\<close> without arguments treat as whitespace.
\<close>

definition is_space :: "nat \<Rightarrow> bool" where
  "is_space c \<longleftrightarrow>
     (9 \<le> c \<and> c \<le> 13) \<or> (28 \<le> c \<and> c \<le> 32) \<or> c = 133 \<or> c = 160 \<or> c = 5760 \<or>
     (8192 \<le> c \<and> c \<le> 8202) \<or> c = 8232 \<or> c = 8233 \<or> c = 8239 \<or> c = 8287 \<or> c = 12288"

definition strip :: "ustr \<Rightarrow> ustr" where
  "strip s = rev (dropWhile is_space (rev (dropWhile is_space s)))"

text \<open>
  \<^verbatim>\<open>str.split()\<close>: the maximal runs of non-whitespace characters, in order. The first
  argument of \<open>split_from\<close> is the token read so far.
\<close>

fun split_from :: "ustr \<Rightarrow> ustr \<Rightarrow> ustr list" where
  "split_from cur [] = (if cur = [] then [] else [cur])"
| "split_from cur (c # cs) =
     (if is_space c then (if cur = [] then split_from [] cs else cur # split_from [] cs)
      else split_from (cur @ [c]) cs)"

definition split :: "ustr \<Rightarrow> ustr list" where
  "split s = split_from [] s"

definition startswith :: "ustr \<Rightarrow> ustr \<Rightarrow> bool" where
  "startswith s p \<longleftrightarrow> take (length p) s = p"

text \<open>\<^verbatim>\<open>sep.join(xs)\<close>.\<close>

fun join :: "ustr \<Rightarrow> ustr list \<Rightarrow> ustr" where
  "join sep [] = []"
| "join sep [x] = x"
| "join sep (x # y # ys) = x @ sep @ join sep (y # ys)"

subsection \<open>Exceptions\<close>

text \<open>
  The two ways the code of the engine could raise: an index past the end of a list, and a
  string method called on \<^verbatim>\<open>None\<close> (a slot that was never filled). A computation that
  may raise returns \<open>error + 'a\<close>.
\<close>

datatype error = IndexError | AttributeError

definition bind_err :: "error + 'a \<Rightarrow> ('a \<Rightarrow> error + 'b) \<Rightarrow> error + 'b" where
  "bind_err m f = (case m of Inl e \<Rightarrow> Inl e | Inr x \<Rightarrow> f x)"

definition index :: "'a list \<Rightarrow> nat \<Rightarrow> error + 'a" where
  "index xs i = (if i < length xs then Inr (xs ! i) else Inl IndexError)"

subsection \<open>Word types and the role tables\<close>

datatype word_type =
  SUBJECT | OBJECT | VERB | ADJECTIVE | PRONOUN | NOUN | PREPOSITION | DETERMINER | UNKNOWN

text \<open>
  The four tables that \<^verbatim>\<open>_analyze_dictionary\<close> assigns, as association lists in the order
  of the source (no key occurs twice). The phrase dictionary \<^verbatim>\<open>self.dictionary\<close> is loaded
  from a file and is the parameter \<open>d\<close> below.
\<close>

definition pronouns :: "(ustr \<times> ustr) list" where
  "pronouns =
    [(u ''I'', [65, 114, 237]),
     (u ''you'', [7882]),
     (u ''he'', u ''U''),
     (u ''she'', u ''A''),
     (u ''we'', [87, 243, 110, 236]),
     (u ''they'', [87, 243, 110, 236]),
     (u ''my'', [121, 232]),
     (u ''your'', [119, 232]),
     (u ''his'', [121, 232]),
     (u ''her'', [121, 232]),
     (u ''our'', [119, 243, 110, 236]),
     (u ''their'', [119, 243, 110, 236])]"

definition verbs :: "(ustr \<times> ustr) list" where
  "verbs =
    [(u ''am'', u ''ye''),
     (u ''is'', u ''ye''),
     (u ''are'', u ''ye''),
     (u ''have'', u ''sabi''),
     (u ''has'', u ''sabi''),
     (u ''want'', [119, 7885, 110, 116]),
     (u ''wants'', [119, 7885, 110, 116]),
     (u ''like'', u ''laik''),
     (u ''likes'', u ''laik''),
     (u ''see'', [102, 7883, 110, 7883]),
     (u ''sees'', [102, 7883, 110, 7883]),
     (u ''eat'', [102, 7883]),
     (u ''eats'', [102, 7883]),
     (u ''drink'', u ''mu''),
     (u ''drinks'', u ''mu''),
     (u ''go'', u ''gha''),
     (u ''goes'', u ''gha''),
     (u ''come'', u ''bia''),
     (u ''comes'', u ''bia''),
     (u ''work'', u ''wok''),
     (u ''works'', u ''wok''),
     (u ''sleep'', u ''turu''),
     (u ''sleeps'', u ''turu''),
     (u ''build'', u ''bil''),
     (u ''builds'', u ''bil''),
     (u ''take'', [97, 107, 7883, 769]),
     (u ''takes'', [97, 107, 7883, 769]),
     (u ''give'', u ''giv''),
     (u ''gives'', u ''giv''),
     (u ''help'', u ''help''),
     (u ''helps'', u ''help''),
     (u ''walk'', u ''waka''),
     (u ''walks'', u ''waka''),
     (u ''run'', u ''ron''),
     (u ''runs'', u ''ron''),
     (u ''dance'', u ''dans''),
     (u ''dances'', u ''dans''),
     (u ''sing'', u ''son''),
     (u ''sings'', u ''son''),
     (u ''cook'', [110, 107, 7885, 768, 114, 7885]),
     (u ''cooks'', [110, 107, 7885, 768, 114, 7885])]"

definition nouns :: "(ustr \<times> ustr) list" where
  "nouns =
    [(u ''house'', [119, 225, 114, 7883]),
     (u ''water'', [98, 101, 110, 237]),
     (u ''food'', [102, 7883, 769, 121, 97, 7883]),
     (u ''fish'', [236, 110, 100, 237]),
     (u ''river'', [7885, 769, 119, 7909]),
     (u ''sun'', [115, 7885, 769]),
     (u ''moon'', [97, 107, 97, 108, 7909, 769]),
     (u ''child'', [116, 7885, 769, 98, 7885, 768, 7909]),
     (u ''friend'', [107, 7865, 769, 110, 7883]),
     (u ''family'', [119, 225, 114, 7883, 98, 7883, 98, 7883, 768]),
     (u ''father'', [111, 119, 233, 105]),
     (u ''mother'', [7865, 769, 114, 7865]),
     (u ''brother'', [98, 224, 114, 224]),
     (u ''sister'', [101, 114, 233, 119, 232, 114, 237]),
     (u ''money'', [97, 98, 97, 100, 7883, 45, 117, 103, 250]),
     (u ''yam'', [242, 107, 249, 45, 7883, 768, 119, 7865]),
     (u ''cassava'', [97, 98, 225, 98, 249, 114, 250]),
     (u ''canoe'', [242, 114, 249]),
     (u ''cup'', [97, 103, 98, 233, 236]),
     (u ''net'', [97, 103, 98, 117, 110, 250]),
     (u ''market'', u ''maket''),
     (u ''village'', [242, 107, 249, 45, 225, 109, 224]),
     (u ''farm'', [242, 103, 98, 243]),
     (u ''fire'', u ''faya''),
     (u ''ancestor'', [236, 119, 233, 105]),
     (u ''ancestors'', [236, 119, 233, 105, 45, 119, 243, 110, 236]),
     (u ''children'', [116, 7885, 769, 98, 7885, 768, 7909, 45, 119, 243, 110, 236]),
     (u ''friends'', [107, 7865, 769, 110, 7883, 45, 119, 243, 110, 236]),
     (u ''people'', [242, 107, 249, 45, 119, 243, 110, 236])]"

definition adjectives :: "(ustr \<times> ustr) list" where
  "adjectives =
    [(u ''good'', u ''botu''),
     (u ''bad'', u ''kiri''),
     (u ''big'', u ''toru''),
     (u ''small'', u ''kiri-kiri''),
     (u ''happy'', u ''hapi''),
     (u ''tired'', u ''sik''),
     (u ''strong'', u ''strong''),
     (u ''wise'', [97, 107, 237, 114, 242, 114, 111]),
     (u ''kind'', u ''botu''),
     (u ''busy'', u ''wok haad''),
     (u ''hungry'', u ''hongri''),
     (u ''thirsty'', u ''tosti''),
     (u ''hot'', [116, 117, 117, 32, 100, 7885, 769, 110]),
     (u ''cold'', u ''kol''),
     (u ''clean'', u ''klin''),
     (u ''fresh'', u ''nyu''),
     (u ''warm'', u ''hot''),
     (u ''bright'', u ''rait''),
     (u ''deep'', [116, 7885, 769, 110]),
     (u ''long'', [112, 243, 114, 249]),
     (u ''tall'', u ''toru''),
     (u ''beautiful'', u ''fain''),
     (u ''angry'', [107, 237, 114, 105, 109, 225]),
     (u ''sad'', u ''kiri''),
     (u ''old'', [242, 107, 250]),
     (u ''young'', [116, 7885, 769, 98, 7885, 768, 7909]),
     (u ''new'', u ''nyu''),
     (u ''fast'', u ''fast''),
     (u ''slow'', u ''slow''),
     (u ''sick'', u ''sik'')]"

type_synonym dict = "ustr \<rightharpoonup> ustr"

definition member :: "(ustr \<times> ustr) list \<Rightarrow> ustr \<Rightarrow> bool" where
  "member t k \<longleftrightarrow> map_of t k \<noteq> None"

subsection \<open>classify_word and translate_word\<close>

definition classify_word :: "(ustr \<Rightarrow> ustr) \<Rightarrow> ustr \<Rightarrow> word_type" where
  "classify_word U word =
     (let word_lower = lower U word in
      if member pronouns word_lower then PRONOUN
      else if member verbs word_lower then VERB
      else if member nouns word_lower then NOUN
      else if member adjectives word_lower then ADJECTIVE
      else if word_lower \<in> set [u ''the'', u ''a'', u ''an'', u ''this'', u ''that''] then DETERMINER
      else if word_lower \<in> set [u ''to'', u ''at'', u ''in'', u ''on'', u ''with'', u ''from'']
        then PREPOSITION
      else UNKNOWN)"

text \<open>
  Each \<^verbatim>\<open>if k in t: return t[k]\<close> of the source is one \<open>case\<close> on the lookup, so the
  subscript never misses its key.
\<close>

definition translate_word :: "(ustr \<Rightarrow> ustr) \<Rightarrow> dict \<Rightarrow> ustr \<Rightarrow> ustr" where
  "translate_word U d word =
     (let word_lower = lower U word in
      case d word_lower of Some v \<Rightarrow> v
      | None \<Rightarrow>
     (case map_of pronouns word_lower of Some v \<Rightarrow> v
      | None \<Rightarrow>
     (case map_of verbs word_lower of Some v \<Rightarrow> v
      | None \<Rightarrow>
     (case map_of nouns word_lower of Some v \<Rightarrow> v
      | None \<Rightarrow>
     (case map_of adjectives word_lower of Some v \<Rightarrow> v
      | None \<Rightarrow> word)))))"

subsection \<open>parse_sentence\<close>

text \<open>
  The dictionary \<^verbatim>\<open>parsed\<close>: every slot is \<^verbatim>\<open>None\<close> or a string. \<open>truthy\<close> is
  Python's truth value of a slot, as tested by \<^verbatim>\<open>not parsed[...]\<close> and
  \<^verbatim>\<open>parsed[...] and ...\<close>.
\<close>

record parsed =
  subject :: "ustr option"
  object :: "ustr option"
  verb :: "ustr option"
  adjective :: "ustr option"
  preposition :: "ustr option"
  location :: "ustr option"
  time :: "ustr option"
  question_type :: "ustr option"

definition truthy :: "ustr option \<Rightarrow> bool" where
  "truthy x = (case x of None \<Rightarrow> False | Some w \<Rightarrow> w \<noteq> [])"

definition empty_parsed :: parsed where
  "empty_parsed =
     \<lparr>subject = None, object = None, verb = None, adjective = None, preposition = None,
      location = None, time = None, question_type = None\<rparr>"

definition possessives :: "ustr list" where
  "possessives = [u ''my'', u ''your'', u ''his'', u ''her'', u ''our'', u ''their'']"

text \<open>The body of the loop over the words: one \<^verbatim>\<open>if\<close>/\<^verbatim>\<open>elif\<close> chain.\<close>

definition parse_step :: "(ustr \<Rightarrow> ustr) \<Rightarrow> parsed \<Rightarrow> ustr \<Rightarrow> parsed" where
  "parse_step U p word =
     (let wt = classify_word U word in
      if wt = PRONOUN \<and> \<not> truthy (subject p) \<and> word \<notin> set possessives
        then p\<lparr>subject := Some word\<rparr>
      else if wt = VERB \<and> \<not> truthy (verb p) then p\<lparr>verb := Some word\<rparr>
      else if wt = NOUN then
        (if \<not> truthy (object p) then p\<lparr>object := Some word\<rparr>
         else if word \<in> set [u ''house'', u ''market'', u ''river'', u ''village'', u ''farm'']
           then p\<lparr>location := Some word\<rparr>
         else p)
      else if wt = ADJECTIVE \<and> \<not> truthy (adjective p) then p\<lparr>adjective := Some word\<rparr>
      else if word \<in> set [u ''now'', u ''today'', u ''tomorrow'', u ''early'', u ''late'']
        then p\<lparr>time := Some word\<rparr>
      else p)"

definition parse_words :: "(ustr \<Rightarrow> ustr) \<Rightarrow> ustr list \<Rightarrow> parsed" where
  "parse_words U words = foldl (parse_step U) empty_parsed words"

definition parse_sentence :: "(ustr \<Rightarrow> ustr) \<Rightarrow> ustr \<Rightarrow> parsed" where
  "parse_sentence U sentence =
     (let words = split (strip (lower U sentence));
          p = parse_words U words
      in if startswith sentence (u ''where'') then p\<lparr>question_type := Some (u ''where'')\<rparr>
         else if startswith sentence (u ''how are'') then p\<lparr>question_type := Some (u ''how_are'')\<rparr>
         else if startswith sentence (u ''do you have'')
           then p\<lparr>question_type := Some (u ''do_you_have'')\<rparr>
         else p)"

subsection \<open>generate_translation\<close>

text \<open>
  A slot handed to \<^verbatim>\<open>translate_word\<close>: on \<^verbatim>\<open>None\<close> the call \<^verbatim>\<open>word.lower()\<close> raises.
  \<open>slot_in\<close> is \<^verbatim>\<open>parsed[...] in [...]\<close>, which is false on \<^verbatim>\<open>None\<close>.
\<close>

definition translate_slot :: "(ustr \<Rightarrow> ustr) \<Rightarrow> dict \<Rightarrow> ustr option \<Rightarrow> error + ustr" where
  "translate_slot U d x =
     (case x of None \<Rightarrow> Inl AttributeError | Some w \<Rightarrow> Inr (translate_word U d w))"

definition slot_in :: "ustr option \<Rightarrow> ustr list \<Rightarrow> bool" where
  "slot_in x xs = (case x of None \<Rightarrow> False | Some w \<Rightarrow> w \<in> set xs)"

text \<open>
  Conditions that index a list may raise: \<open>elem_in words i xs\<close> is \<^verbatim>\<open>words[i] in xs\<close>,
  \<open>and_err\<close> is the short-circuit \<^verbatim>\<open>and\<close>, \<open>cond_err\<close> the \<^verbatim>\<open>if\<close> on such a
  condition.
\<close>

definition elem_in :: "ustr list \<Rightarrow> nat \<Rightarrow> ustr list \<Rightarrow> error + bool" where
  "elem_in words i xs = bind_err (index words i) (\<lambda>w. Inr (w \<in> set xs))"

definition key_in :: "ustr list \<Rightarrow> nat \<Rightarrow> (ustr \<times> ustr) list \<Rightarrow> error + bool" where
  "key_in words i t = bind_err (index words i) (\<lambda>w. Inr (member t w))"

definition and_err :: "error + bool \<Rightarrow> error + bool \<Rightarrow> error + bool" where
  "and_err m n = bind_err m (\<lambda>a. if a then n else Inr False)"

definition cond_err :: "error + bool \<Rightarrow> error + 'a \<Rightarrow> error + 'a \<Rightarrow> error + 'a" where
  "cond_err c a b = bind_err c (\<lambda>v. if v then a else b)"

definition sp :: ustr where
  "sp = u '' ''"

definition copulas :: "ustr list" where
  "copulas = [u ''is'', u ''are'']"

text \<open>The last resort: every token of the original sentence through \<^verbatim>\<open>translate_word\<close>.\<close>

definition fallback :: "(ustr \<Rightarrow> ustr) \<Rightarrow> dict \<Rightarrow> ustr \<Rightarrow> error + ustr" where
  "fallback U d sentence =
     (let words = split sentence;
          translated_words = map (translate_word U d) words
      in Inr (join sp translated_words))"

text \<open>
  The possessive patterns (\<^verbatim>\<open>words = sentence_lower.split()\<close> and what follows). A branch
  that does not return falls through to the word-by-word translation.
\<close>

definition possessive_patterns ::
  "(ustr \<Rightarrow> ustr) \<Rightarrow> dict \<Rightarrow> ustr \<Rightarrow> ustr \<Rightarrow> error + ustr" where
  "possessive_patterns U d sentence sentence_lower =
     (let words = split sentence_lower in
      if 2 \<le> length words then
        cond_err (elem_in words 0 possessives)
          (bind_err (index words 0) (\<lambda>w0.
           bind_err (index words 1) (\<lambda>w1.
             let possessive = translate_word U d w0;
                 noun = translate_word U d w1
             in
             if length words = 2 then Inr (noun @ sp @ possessive)
             else
               cond_err (and_err (Inr (length words = 3)) (elem_in words 2 copulas))
                 (Inr (noun @ sp @ possessive @ u '' ye''))
                 (if 3 \<le> length words then
                    cond_err (and_err (elem_in words 2 copulas)
                               (and_err (Inr (length words = 4)) (key_in words 3 adjectives)))
                      (bind_err (index words 3) (\<lambda>w3.
                         let adj = translate_word U d w3
                         in Inr (possessive @ sp @ noun @ sp @ adj @ u '' ye'')))
                      (cond_err (and_err (elem_in words 2 copulas) (Inr (length words = 4)))
                         (bind_err (index words 3) (\<lambda>w3.
                            let adj = translate_word U d w3
                            in Inr (noun @ sp @ possessive @ sp @ adj @ u '' ye'')))
                         (let rest = join sp (map (translate_word U d) (drop 2 words))
                          in Inr (noun @ sp @ possessive @ sp @ rest)))
                  else fallback U d sentence))))
          (fallback U d sentence)
      else fallback U d sentence)"

text \<open>The statement templates, tested on the slots in the order of the source.\<close>

definition statement_patterns ::
  "(ustr \<Rightarrow> ustr) \<Rightarrow> dict \<Rightarrow> ustr \<Rightarrow> ustr \<Rightarrow> parsed \<Rightarrow> error + ustr" where
  "statement_patterns U d sentence sentence_lower p =
     (if truthy (subject p) \<and> truthy (adjective p) then
        bind_err (translate_slot U d (subject p)) (\<lambda>subj.
        bind_err (translate_slot U d (adjective p)) (\<lambda>adj.
          Inr (subj @ sp @ adj @ u '' ye'')))
      else if truthy (subject p) \<and> truthy (object p) \<and> truthy (verb p) then
        bind_err (translate_slot U d (subject p)) (\<lambda>subj.
        bind_err (translate_slot U d (object p)) (\<lambda>obj.
        bind_err (translate_slot U d (verb p)) (\<lambda>vb.
          if slot_in (verb p) [u ''have'', u ''has''] then Inr (subj @ sp @ obj @ u '' sabi'')
          else if slot_in (verb p) [u ''want'', u ''wants'']
            then Inr (subj @ sp @ obj @ [32, 119, 7885, 110, 116])
          else if slot_in (verb p) [u ''like'', u ''likes''] then Inr (subj @ sp @ obj @ u '' laik'')
          else if slot_in (verb p) [u ''eat'', u ''eats'']
            then Inr (subj @ sp @ obj @ [32, 102, 7883])
          else if slot_in (verb p) [u ''build'', u ''builds''] then Inr (subj @ sp @ obj @ u '' bil'')
          else Inr (subj @ sp @ obj @ sp @ vb))))
      else if truthy (subject p) \<and> truthy (verb p) then
        bind_err (translate_slot U d (subject p)) (\<lambda>subj.
        bind_err (translate_slot U d (verb p)) (\<lambda>vb.
          if truthy (location p) then
            bind_err (translate_slot U d (location p)) (\<lambda>loc.
              if slot_in (verb p) [u ''go'', u ''goes''] then Inr (subj @ sp @ loc @ u '' gha'')
              else if slot_in (verb p) [u ''come'', u ''comes'']
                then Inr (subj @ sp @ loc @ u '' bia'')
              else if slot_in (verb p) [u ''walk'', u ''walks'']
                then Inr (subj @ sp @ loc @ u '' waka'')
              else Inr (subj @ sp @ loc @ sp @ vb))
          else if truthy (time p) then
            bind_err (translate_slot U d (time p)) (\<lambda>time_word.
              Inr (subj @ sp @ time_word @ sp @ vb))
          else if slot_in (verb p) [u ''am'', u ''is'', u ''are''] then Inr (subj @ u '' ye'')
          else Inr (subj @ sp @ vb)))
      else possessive_patterns U d sentence sentence_lower)"

text \<open>
  The whole cascade: the exact phrase, the question templates, then the statements.
  The non-ASCII literals of the three question templates are written out as code points.
\<close>

definition generate_translation :: "(ustr \<Rightarrow> ustr) \<Rightarrow> dict \<Rightarrow> ustr \<Rightarrow> error + ustr" where
  "generate_translation U d sentence =
     (let sentence_lower = strip (lower U sentence) in
      case d sentence_lower of Some v \<Rightarrow> Inr v
      | None \<Rightarrow>
        (let p = parse_sentence U sentence in
         if question_type p = Some (u ''how_are'')
           then Inr [73, 32, 98, 243, 100, 7885, 7909, 63]
         else if question_type p = Some (u ''where'') \<and> truthy (object p) then
           bind_err (translate_slot U d (object p)) (\<lambda>obj_translation.
             Inr (obj_translation @ [32, 107, 237, 32, 121, 101, 63]))
         else if question_type p = Some (u ''do_you_have'') \<and> truthy (object p) then
           bind_err (translate_slot U d (object p)) (\<lambda>obj_translation.
             Inr ([7882, 32] @ obj_translation @ u '' sabi?''))
         else statement_patterns U d sentence sentence_lower p))"

section \<open>Properties\<close>

subsection \<open>Evaluating the string primitives and the tables\<close>

lemmas string_defs = u_def lower_def ascii_lower_def strip_def split_def is_space_def startswith_def

lemmas table_defs = member_def pronouns_def verbs_def nouns_def adjectives_def

subsection \<open>The loop of parse_sentence\<close>

lemma parse_step_question_type: "question_type (parse_step U p w) = question_type p"
  unfolding parse_step_def Let_def by (simp del: set_simps)

lemma foldl_parse_step_question_type:
  "question_type (foldl (parse_step U) p ws) = question_type p"
  by (induction ws arbitrary: p) (simp_all add: parse_step_question_type)

lemma parse_words_question_type: "question_type (parse_words U ws) = None"
  by (simp add: parse_words_def foldl_parse_step_question_type empty_parsed_def)

text \<open>The question test changes no slot that the loop fills.\<close>

lemma parse_sentence_slots:
  "subject (parse_sentence U s) = subject (parse_words U (split (strip (lower U s))))"
  "object (parse_sentence U s) = object (parse_words U (split (strip (lower U s))))"
  "verb (parse_sentence U s) = verb (parse_words U (split (strip (lower U s))))"
  "adjective (parse_sentence U s) = adjective (parse_words U (split (strip (lower U s))))"
  "location (parse_sentence U s) = location (parse_words U (split (strip (lower U s))))"
  "time (parse_sentence U s) = time (parse_words U (split (strip (lower U s))))"
  by (simp_all add: parse_sentence_def Let_def)

subsection \<open>The phrase dictionary wins\<close>

text \<open>
  C1. If the lower-cased, trimmed sentence is a key of the phrase dictionary,
  \<^verbatim>\<open>generate_translation\<close> returns the value stored under that key, whatever the tagger
  and the templates would produce.
\<close>

theorem phrase_dictionary_override:
  "d (strip (lower U s)) = Some v \<Longrightarrow> generate_translation U d s = Inr v"
  by (simp add: generate_translation_def Let_def)

text \<open>
  The sentence \<^verbatim>\<open>"  You are HAPPY "\<close> would fill the subject and the adjective slot; with
  its normal form in the dictionary the stored value is returned.
\<close>

theorem phrase_dictionary_override_witness:
  "[u ''you are happy'' \<mapsto> u ''stored''] (strip (lower id (u ''  You are HAPPY ''))) = Some (u ''stored'') \<and>
   generate_translation id [u ''you are happy'' \<mapsto> u ''stored''] (u ''  You are HAPPY '')
     = Inr (u ''stored'')"
proof -
  have key: "[u ''you are happy'' \<mapsto> u ''stored''] (strip (lower id (u ''  You are HAPPY '')))
      = Some (u ''stored'')"
    by (simp add: string_defs)
  show ?thesis
    using key
      phrase_dictionary_override
        [of "[u ''you are happy'' \<mapsto> u ''stored'']" id "u ''  You are HAPPY ''" "u ''stored''"]
    by simp
qed

subsection \<open>The question type is read from the original sentence\<close>

text \<open>
  C10. Question detection is case-sensitive: a sentence that does not literally start with
  \<^verbatim>\<open>"where"\<close>, \<^verbatim>\<open>"how are"\<close> or \<^verbatim>\<open>"do you have"\<close> gets no question type, also
  when its lower-cased form starts with one of them.
\<close>

theorem question_type_case_sensitive:
  assumes "\<not> startswith s (u ''where'')"
    and "\<not> startswith s (u ''how are'')"
    and "\<not> startswith s (u ''do you have'')"
  shows "question_type (parse_sentence U s) = None"
  using assms by (simp add: parse_sentence_def Let_def parse_words_question_type)

text \<open>\<^verbatim>\<open>"Where is the river?"\<close>, with a capital W, is such a sentence.\<close>

theorem question_type_case_sensitive_witness:
  "\<not> startswith (u ''Where is the river?'') (u ''where'') \<and>
   \<not> startswith (u ''Where is the river?'') (u ''how are'') \<and>
   \<not> startswith (u ''Where is the river?'') (u ''do you have'') \<and>
   startswith (lower id (u ''Where is the river?'')) (u ''where'') \<and>
   question_type (parse_sentence id (u ''Where is the river?'')) = None"
proof -
  have a: "\<not> startswith (u ''Where is the river?'') (u ''where'')"
    by (simp add: string_defs)
  have b: "\<not> startswith (u ''Where is the river?'') (u ''how are'')"
    by (simp add: string_defs)
  have c: "\<not> startswith (u ''Where is the river?'') (u ''do you have'')"
    by (simp add: string_defs)
  have l: "startswith (lower id (u ''Where is the river?'')) (u ''where'')"
    by (simp add: string_defs)
  show ?thesis
    using a b c l question_type_case_sensitive [OF a b c, of id] by simp
qed

lemmas parse_defs =
  parse_words_def parse_step_def classify_word_def Let_def truthy_def possessives_def
  empty_parsed_def

lemma u_Cons_not_Nil: "u (c # cs) \<noteq> []"
  by (simp add: u_def)

subsection \<open>Slots that are written once\<close>

lemma parse_step_guarded:
  "truthy (subject p) \<Longrightarrow> subject (parse_step U p w) = subject p"
  "truthy (object p) \<Longrightarrow> object (parse_step U p w) = object p"
  "truthy (verb p) \<Longrightarrow> verb (parse_step U p w) = verb p"
  "truthy (adjective p) \<Longrightarrow> adjective (parse_step U p w) = adjective p"
  unfolding parse_step_def Let_def by (simp_all del: set_simps)

lemma foldl_parse_step_subject:
  "truthy (subject p) \<Longrightarrow> subject (foldl (parse_step U) p ws) = subject p"
  by (induction ws arbitrary: p) (simp_all add: parse_step_guarded)

lemma foldl_parse_step_object:
  "truthy (object p) \<Longrightarrow> object (foldl (parse_step U) p ws) = object p"
  by (induction ws arbitrary: p) (simp_all add: parse_step_guarded)

lemma foldl_parse_step_verb:
  "truthy (verb p) \<Longrightarrow> verb (foldl (parse_step U) p ws) = verb p"
  by (induction ws arbitrary: p) (simp_all add: parse_step_guarded)

lemma foldl_parse_step_adjective:
  "truthy (adjective p) \<Longrightarrow> adjective (foldl (parse_step U) p ws) = adjective p"
  by (induction ws arbitrary: p) (simp_all add: parse_step_guarded)

text \<open>
  The slots \<^verbatim>\<open>subject\<close>, \<^verbatim>\<open>object\<close>, \<^verbatim>\<open>verb\<close> and \<^verbatim>\<open>adjective\<close> are
  written behind the test \<^verbatim>\<open>not parsed[...]\<close>: if one of them is non-empty after a
  prefix \<open>ws\<close> of the sentence's tokens, the finished parse holds the same value, whatever
  tokens follow.
\<close>

lemma guarded_slots_first_match_wins:
  assumes "split (strip (lower U s)) = ws @ ws'"
  shows "(truthy (subject (parse_words U ws)) \<longrightarrow>
            subject (parse_sentence U s) = subject (parse_words U ws)) \<and>
         (truthy (object (parse_words U ws)) \<longrightarrow>
            object (parse_sentence U s) = object (parse_words U ws)) \<and>
         (truthy (verb (parse_words U ws)) \<longrightarrow>
            verb (parse_sentence U s) = verb (parse_words U ws)) \<and>
         (truthy (adjective (parse_words U ws)) \<longrightarrow>
            adjective (parse_sentence U s) = adjective (parse_words U ws))"
  using assms
  by (simp add: parse_sentence_slots parse_words_def foldl_parse_step_subject
      foldl_parse_step_object foldl_parse_step_verb foldl_parse_step_adjective)

text \<open>
  C3. Every slot of the parse is to be written at most once, the first matching token
  winning. The branches that write \<^verbatim>\<open>location\<close> and \<^verbatim>\<open>time\<close> lack the test that
  the other four have, and there a later token replaces an earlier one: in
  \<^verbatim>\<open>"fish house market"\<close> the location is \<^verbatim>\<open>house\<close> after two tokens and
  \<^verbatim>\<open>market\<close> at the end; in \<^verbatim>\<open>"she sleeps now today"\<close> the time is \<^verbatim>\<open>now\<close> after
  three tokens and \<^verbatim>\<open>today\<close> at the end.
\<close>

theorem location_and_time_overwritten:
  "split (strip (lower U (u ''fish house market'')))
     = [u ''fish'', u ''house''] @ [u ''market''] \<and>
   location (parse_words U [u ''fish'', u ''house'']) = Some (u ''house'') \<and>
   location (parse_sentence U (u ''fish house market'')) = Some (u ''market'') \<and>
   split (strip (lower U (u ''she sleeps now today'')))
     = [u ''she'', u ''sleeps'', u ''now''] @ [u ''today''] \<and>
   time (parse_words U [u ''she'', u ''sleeps'', u ''now'']) = Some (u ''now'') \<and>
   time (parse_sentence U (u ''she sleeps now today'')) = Some (u ''today'')"
proof -
  have l1: "split (strip (lower U (u ''fish house market'')))
      = [u ''fish'', u ''house''] @ [u ''market'']"
    by (simp add: string_defs)
  have l2: "location (parse_words U [u ''fish'', u ''house'']) = Some (u ''house'')"
    by (simp add: parse_defs string_defs table_defs)
  have l3: "location (parse_sentence U (u ''fish house market'')) = Some (u ''market'')"
    by (simp add: parse_sentence_slots parse_defs string_defs table_defs)
  have t1: "split (strip (lower U (u ''she sleeps now today'')))
      = [u ''she'', u ''sleeps'', u ''now''] @ [u ''today'']"
    by (simp add: string_defs)
  have t2: "time (parse_words U [u ''she'', u ''sleeps'', u ''now'']) = Some (u ''now'')"
    by (simp add: parse_defs string_defs table_defs)
  have t3: "time (parse_sentence U (u ''she sleeps now today'')) = Some (u ''today'')"
    by (simp add: parse_sentence_slots parse_defs string_defs table_defs)
  show ?thesis
    using l1 l2 l3 t1 t2 t3 by blast
qed

subsection \<open>Possessive pronouns are never the subject\<close>

lemma parse_step_subject_not_possessive:
  assumes "\<forall>x. subject p = Some x \<longrightarrow> x \<notin> set possessives"
  shows "\<forall>x. subject (parse_step U p w) = Some x \<longrightarrow> x \<notin> set possessives"
  using assms unfolding parse_step_def Let_def by (simp del: set_simps)

lemma foldl_parse_step_subject_not_possessive:
  "\<forall>x. subject p = Some x \<longrightarrow> x \<notin> set possessives \<Longrightarrow>
   \<forall>x. subject (foldl (parse_step U) p ws) = Some x \<longrightarrow> x \<notin> set possessives"
proof (induction ws arbitrary: p)
  case Nil
  then show ?case by simp
next
  case (Cons w ws)
  have "\<forall>x. subject (parse_step U p w) = Some x \<longrightarrow> x \<notin> set possessives"
    using Cons.prems by (rule parse_step_subject_not_possessive)
  then show ?case using Cons.IH by simp
qed

lemma parse_words_subject_not_possessive:
  "subject (parse_words U ws) = Some x \<Longrightarrow> x \<notin> set possessives"
  using foldl_parse_step_subject_not_possessive [of empty_parsed U ws]
  by (simp add: parse_words_def empty_parsed_def)

text \<open>
  C6. If the first token of the lower-cased sentence is one of \<^verbatim>\<open>my\<close>,
  \<^verbatim>\<open>your\<close>, \<^verbatim>\<open>his\<close>, \<^verbatim>\<open>her\<close>, \<^verbatim>\<open>our\<close>, \<^verbatim>\<open>their\<close>, the subject
  slot of the parse does not hold that token.
\<close>

theorem possessive_never_subject:
  assumes "split (strip (lower U s)) = w # ws" and "w \<in> set possessives"
  shows "subject (parse_sentence U s) \<noteq> Some w"
  using assms parse_words_subject_not_possessive [of U "w # ws" w]
  by (auto simp add: parse_sentence_slots simp del: set_simps)

theorem possessive_never_subject_witness:
  "split (strip (lower id (u ''My father is strong''))) = u ''my'' # [u ''father'', u ''is'', u ''strong''] \<and>
   u ''my'' \<in> set possessives \<and>
   subject (parse_sentence id (u ''My father is strong'')) \<noteq> Some (u ''my'')"
proof -
  have toks: "split (strip (lower id (u ''My father is strong'')))
      = u ''my'' # [u ''father'', u ''is'', u ''strong'']"
    by (simp add: string_defs)
  have poss: "u ''my'' \<in> set possessives"
    by (simp add: possessives_def)
  show ?thesis
    using toks poss possessive_never_subject [OF toks poss] by simp
qed

subsection \<open>A location needs an object\<close>

lemma parse_step_location:
  "location (parse_step U p w) \<noteq> location p \<Longrightarrow>
     truthy (object p) \<and> object (parse_step U p w) = object p"
  unfolding parse_step_def Let_def by (simp del: set_simps split: if_splits)

lemma parse_step_location_value:
  "location (parse_step U p w) \<noteq> location p \<Longrightarrow>
     location (parse_step U p w) = Some w \<and> classify_word U w = NOUN"
  unfolding parse_step_def Let_def by (simp del: set_simps split: if_splits)

lemma parse_step_object:
  "object (parse_step U p w) \<noteq> object p \<Longrightarrow>
     classify_word U w = NOUN \<and> \<not> truthy (object p) \<and> object (parse_step U p w) = Some w"
  unfolding parse_step_def Let_def by (simp del: set_simps split: if_splits)

lemma classify_word_Nil: "classify_word U [] = UNKNOWN"
  by (simp add: classify_word_def Let_def lower_def table_defs u_def)

lemma noun_not_Nil: "classify_word U w = NOUN \<Longrightarrow> w \<noteq> []"
  using classify_word_Nil [of U] by auto

lemma parse_words_snoc: "parse_words U (ws @ [w]) = parse_step U (parse_words U ws) w"
  by (simp add: parse_words_def)

lemma parse_words_Nil: "parse_words U [] = empty_parsed"
  by (simp add: parse_words_def)

lemma parse_words_object_noun:
  "object (parse_words U ws) = Some n \<Longrightarrow> classify_word U n = NOUN \<and> n \<in> set ws"
proof (induction ws arbitrary: n rule: rev_induct)
  case Nil
  then show ?case by (simp add: parse_words_Nil empty_parsed_def)
next
  case (snoc w ws)
  show ?case
  proof (cases "object (parse_step U (parse_words U ws) w) = object (parse_words U ws)")
    case True
    with snoc.prems have "object (parse_words U ws) = Some n"
      by (simp add: parse_words_snoc)
    then show ?thesis using snoc.IH by simp
  next
    case False
    then have "classify_word U w = NOUN" and "object (parse_step U (parse_words U ws) w) = Some w"
      using parse_step_object [of U "parse_words U ws" w] by simp_all
    with snoc.prems show ?thesis by (simp add: parse_words_snoc)
  qed
qed

lemma parse_words_location_after_object:
  "location (parse_words U ws) = Some l \<Longrightarrow>
     \<exists>n pre mid post. object (parse_words U ws) = Some n \<and> ws = pre @ n # mid @ l # post"
proof (induction ws arbitrary: l rule: rev_induct)
  case Nil
  then show ?case by (simp add: parse_words_Nil empty_parsed_def)
next
  case (snoc w ws)
  let ?p = "parse_words U ws"
  show ?case
  proof (cases "location (parse_step U ?p w) = location ?p")
    case True
    with snoc.prems have loc: "location ?p = Some l"
      by (simp add: parse_words_snoc)
    then obtain n pre mid post where n: "object ?p = Some n" and ws: "ws = pre @ n # mid @ l # post"
      using snoc.IH by blast
    from n have "n \<noteq> []"
      using parse_words_object_noun [of U ws n] noun_not_Nil by blast
    with n have "truthy (object ?p)" by (simp add: truthy_def)
    then have "object (parse_step U ?p w) = Some n"
      using n parse_step_object [of U ?p w] by auto
    moreover from ws have "ws @ [w] = pre @ n # mid @ l # (post @ [w])" by simp
    ultimately
    have "object (parse_step U ?p w) = Some n \<and> ws @ [w] = pre @ n # mid @ l # (post @ [w])"
      by simp
    then show ?thesis
      unfolding parse_words_snoc by (intro exI)
  next
    case False
    then have same: "object (parse_step U ?p w) = object ?p" and t: "truthy (object ?p)"
      using parse_step_location [of U ?p w] by simp_all
    from False have lw: "location (parse_step U ?p w) = Some w"
      using parse_step_location_value [of U ?p w] by simp
    with snoc.prems have "l = w" by (simp add: parse_words_snoc)
    from t obtain n where n: "object ?p = Some n"
      by (cases "object ?p") (simp_all add: truthy_def)
    then have "n \<in> set ws"
      using parse_words_object_noun [of U ws n] by simp
    then obtain pre mid where "ws = pre @ n # mid"
      by (auto simp add: in_set_conv_decomp)
    then have "ws @ [w] = pre @ n # mid @ l # []"
      using \<open>l = w\<close> by simp
    with same n
    have "object (parse_step U ?p w) = Some n \<and> ws @ [w] = pre @ n # mid @ l # []"
      by simp
    then show ?thesis
      unfolding parse_words_snoc by (intro exI)
  qed
qed

text \<open>
  C9. In the slots that \<^verbatim>\<open>parse_sentence\<close> returns, a location that is set comes with
  a non-empty object, and that object is a noun standing earlier in the sentence than the
  location token: the tokens are \<open>pre @ n # mid @ l # post\<close> with \<open>n\<close> the object and
  \<open>l\<close> the location. Step by step: a token changes the location slot only when the object
  slot is already filled, which that token leaves as it is; and a token changes the object
  slot only when it is a noun and the slot was empty.
\<close>

theorem location_implies_object:
  "(location (parse_sentence U s) \<noteq> None \<longrightarrow> truthy (object (parse_sentence U s))) \<and>
   (\<forall>l. location (parse_sentence U s) = Some l \<longrightarrow>
      (\<exists>n pre mid post. object (parse_sentence U s) = Some n \<and> n \<noteq> [] \<and>
         classify_word U n = NOUN \<and>
         split (strip (lower U s)) = pre @ n # mid @ l # post)) \<and>
   (location (parse_step U p w) \<noteq> location p \<longrightarrow>
      truthy (object p) \<and> object (parse_step U p w) = object p) \<and>
   (object (parse_step U p w) \<noteq> object p \<longrightarrow>
      classify_word U w = NOUN \<and> \<not> truthy (object p) \<and> object (parse_step U p w) = Some w)"
proof -
  let ?ws = "split (strip (lower U s))"
  have earlier: "\<forall>l. location (parse_sentence U s) = Some l \<longrightarrow>
      (\<exists>n pre mid post. object (parse_sentence U s) = Some n \<and> n \<noteq> [] \<and>
         classify_word U n = NOUN \<and> ?ws = pre @ n # mid @ l # post)"
  proof (intro allI impI)
    fix l
    assume "location (parse_sentence U s) = Some l"
    then have "location (parse_words U ?ws) = Some l"
      by (simp add: parse_sentence_slots)
    then obtain n pre mid post where n: "object (parse_words U ?ws) = Some n"
      and ws: "?ws = pre @ n # mid @ l # post"
      using parse_words_location_after_object [of U ?ws l] by blast
    from n have noun: "classify_word U n = NOUN"
      using parse_words_object_noun [of U ?ws n] by simp
    then have "n \<noteq> []" by (rule noun_not_Nil)
    with n noun ws show "\<exists>n pre mid post. object (parse_sentence U s) = Some n \<and> n \<noteq> [] \<and>
         classify_word U n = NOUN \<and> ?ws = pre @ n # mid @ l # post"
      unfolding parse_sentence_slots by blast
  qed
  have filled: "location (parse_sentence U s) \<noteq> None \<longrightarrow> truthy (object (parse_sentence U s))"
  proof
    assume "location (parse_sentence U s) \<noteq> None"
    then obtain l where "location (parse_sentence U s) = Some l" by blast
    with earlier obtain n where "object (parse_sentence U s) = Some n" and "n \<noteq> []" by blast
    then show "truthy (object (parse_sentence U s))" by (simp add: truthy_def)
  qed
  show ?thesis
    using earlier filled parse_step_location [of U p w] parse_step_object [of U p w]
    by blast
qed

text \<open>
  \<^verbatim>\<open>"she sees fish market"\<close>: the noun \<^verbatim>\<open>fish\<close> fills the object, and only then
  \<^verbatim>\<open>market\<close> becomes the location.
\<close>

theorem location_implies_object_witness:
  "location (parse_sentence id (u ''she sees fish market'')) = Some (u ''market'') \<and>
   truthy (object (parse_sentence id (u ''she sees fish market''))) \<and>
   (\<exists>n pre mid post. object (parse_sentence id (u ''she sees fish market'')) = Some n \<and>
      n \<noteq> [] \<and> classify_word id n = NOUN \<and>
      split (strip (lower id (u ''she sees fish market''))) = pre @ n # mid @ u ''market'' # post) \<and>
   location (parse_step id (parse_words id [u ''she'', u ''sees'', u ''fish'']) (u ''market''))
     \<noteq> location (parse_words id [u ''she'', u ''sees'', u ''fish'']) \<and>
   truthy (object (parse_words id [u ''she'', u ''sees'', u ''fish''])) \<and>
   object (parse_step id (parse_words id [u ''she'', u ''sees'', u ''fish'']) (u ''market''))
     = object (parse_words id [u ''she'', u ''sees'', u ''fish'']) \<and>
   object (parse_step id (parse_words id [u ''she'', u ''sees'']) (u ''fish''))
     \<noteq> object (parse_words id [u ''she'', u ''sees'']) \<and>
   classify_word id (u ''fish'') = NOUN \<and>
   \<not> truthy (object (parse_words id [u ''she'', u ''sees''])) \<and>
   object (parse_step id (parse_words id [u ''she'', u ''sees'']) (u ''fish'')) = Some (u ''fish'')"
proof -
  have p0: "parse_words id [u ''she'', u ''sees'']
      = empty_parsed\<lparr>subject := Some (u ''she''), verb := Some (u ''sees'')\<rparr>"
    by (simp add: parse_defs string_defs table_defs)
  have p1: "parse_words id [u ''she'', u ''sees'', u ''fish'']
      = empty_parsed\<lparr>subject := Some (u ''she''), object := Some (u ''fish''),
          verb := Some (u ''sees'')\<rparr>"
    by (simp add: parse_defs string_defs table_defs)
  have loc: "location (parse_sentence id (u ''she sees fish market'')) = Some (u ''market'')"
    by (simp add: parse_sentence_slots parse_defs string_defs table_defs)
  have lstep: "location (parse_step id (parse_words id [u ''she'', u ''sees'', u ''fish'']) (u ''market''))
      \<noteq> location (parse_words id [u ''she'', u ''sees'', u ''fish''])"
    unfolding p1 by (simp add: parse_defs string_defs table_defs)
  have ostep: "object (parse_step id (parse_words id [u ''she'', u ''sees'']) (u ''fish''))
      \<noteq> object (parse_words id [u ''she'', u ''sees''])"
    unfolding p0 by (simp add: parse_defs string_defs table_defs)
  show ?thesis
    using loc lstep ostep
      location_implies_object
        [of id "u ''she sees fish market''" "parse_words id [u ''she'', u ''sees'', u ''fish'']"
          "u ''market''"]
      location_implies_object
        [of id "u ''she sees fish market''" "parse_words id [u ''she'', u ''sees'']" "u ''fish''"]
    by simp
qed

subsection \<open>generate_translation never raises\<close>

lemma translate_slot_truthy:
  "truthy x \<Longrightarrow> translate_slot U d x = Inr (translate_word U d (the x))"
  by (cases x) (simp_all add: translate_slot_def truthy_def)

lemma fallback_Inr:
  "fallback U d s = Inr (join sp (map (translate_word U d) (split s)))"
  by (simp add: fallback_def Let_def)

lemma index_in_range: "i < length xs \<Longrightarrow> index xs i = Inr (xs ! i)"
  by (simp add: index_def)

lemma possessive_patterns_total: "\<exists>r. possessive_patterns U d s sl = Inr r"
proof -
  define words where "words = split sl"
  consider "length words < 2" | "length words = 2" | "length words = 3" | "length words = 4"
    | "4 < length words"
    by linarith
  then show ?thesis
  proof cases
    case 1
    then show ?thesis
      by (simp add: possessive_patterns_def words_def [symmetric] Let_def fallback_Inr)
  next
    case 2
    then show ?thesis
      by (simp add: possessive_patterns_def words_def [symmetric] Let_def fallback_Inr
          cond_err_def and_err_def elem_in_def key_in_def index_in_range bind_err_def
          del: set_simps)
  next
    case 3
    then show ?thesis
      by (simp add: possessive_patterns_def words_def [symmetric] Let_def fallback_Inr
          cond_err_def and_err_def elem_in_def key_in_def index_in_range bind_err_def
          del: set_simps)
  next
    case 4
    then show ?thesis
      by (simp add: possessive_patterns_def words_def [symmetric] Let_def fallback_Inr
          cond_err_def and_err_def elem_in_def key_in_def index_in_range bind_err_def
          del: set_simps)
  next
    case 5
    then have "index words 0 = Inr (words ! 0)" and "index words 1 = Inr (words ! 1)"
      and "index words 2 = Inr (words ! 2)"
      by (auto simp add: index_def)
    with 5 show ?thesis
      by (simp add: possessive_patterns_def words_def [symmetric] Let_def fallback_Inr
          cond_err_def and_err_def elem_in_def key_in_def bind_err_def
          del: set_simps)
  qed
qed

lemma statement_patterns_total: "\<exists>r. statement_patterns U d s sl p = Inr r"
  using possessive_patterns_total [of U d s sl]
  by (simp add: statement_patterns_def translate_slot_truthy bind_err_def del: set_simps)

lemma generate_translation_returns: "\<exists>r. generate_translation U d s = Inr r"
  using statement_patterns_total [of U d s "strip (lower U s)" "parse_sentence U s"]
  by (simp add: generate_translation_def Let_def translate_slot_truthy bind_err_def
      split: option.split)

lemma parse_sentence_Nil: "parse_sentence U [] = empty_parsed"
  by (simp add: parse_sentence_def parse_words_def string_defs)

text \<open>
  C2. For every string, \<^verbatim>\<open>generate_translation\<close> returns a string: no index is out of
  range and no empty slot is translated. On the empty string, when it is not a key of the
  phrase dictionary, the result is the empty string.
\<close>

theorem generate_translation_total:
  "(\<exists>r. generate_translation U d s = Inr r) \<and>
   (d [] = None \<longrightarrow> generate_translation U d [] = Inr [])"
proof
  show "\<exists>r. generate_translation U d s = Inr r"
    by (rule generate_translation_returns)
  show "d [] = None \<longrightarrow> generate_translation U d [] = Inr []"
    by (simp add: generate_translation_def parse_sentence_Nil statement_patterns_def
        possessive_patterns_def fallback_Inr empty_parsed_def truthy_def lower_def strip_def
        split_def)
qed

theorem generate_translation_total_witness:
  "Map.empty ([] :: ustr) = (None :: ustr option) \<and>
   generate_translation id Map.empty [] = Inr [] \<and>
   (\<exists>r. generate_translation id Map.empty [63, 33, 32, 1488, 1489] = Inr r)"
  using generate_translation_total [of id Map.empty "[63, 33, 32, 1488, 1489]"]
  by simp

subsection \<open>The word-by-word fallback\<close>

text \<open>
  C7. When no earlier rule of the cascade returns, the result is the tokens of the original
  sentence, each through \<^verbatim>\<open>translate_word\<close>, joined by single spaces in their order.
  The hypotheses are the tests of the source, negated: the normal form is not a key of the
  phrase dictionary; no question template applies; not subject and adjective; not subject,
  object and verb; not subject and verb; and the lower-cased sentence does not have two or
  more tokens of which the first is a possessive pronoun.
\<close>

theorem fallback_when_no_rule_matches:
  assumes "d (strip (lower U s)) = None"
    and "question_type (parse_sentence U s) \<noteq> Some (u ''how_are'')"
    and "\<not> (question_type (parse_sentence U s) = Some (u ''where'') \<and>
            truthy (object (parse_sentence U s)))"
    and "\<not> (question_type (parse_sentence U s) = Some (u ''do_you_have'') \<and>
            truthy (object (parse_sentence U s)))"
    and "\<not> (truthy (subject (parse_sentence U s)) \<and> truthy (adjective (parse_sentence U s)))"
    and "\<not> (truthy (subject (parse_sentence U s)) \<and> truthy (object (parse_sentence U s)) \<and>
            truthy (verb (parse_sentence U s)))"
    and "\<not> (truthy (subject (parse_sentence U s)) \<and> truthy (verb (parse_sentence U s)))"
    and "\<not> (2 \<le> length (split (strip (lower U s))) \<and>
            split (strip (lower U s)) ! 0 \<in> set possessives)"
  shows "generate_translation U d s = Inr (join (u '' '') (map (translate_word U d) (split s)))"
proof -
  define words where "words = split (strip (lower U s))"
  have poss: "possessive_patterns U d s (strip (lower U s))
      = Inr (join sp (map (translate_word U d) (split s)))"
  proof (cases "2 \<le> length words")
    case False
    then show ?thesis
      by (simp add: possessive_patterns_def words_def [symmetric] Let_def fallback_Inr)
  next
    case True
    then have i0: "index words 0 = Inr (words ! 0)"
      by (auto simp add: index_def)
    from True assms(8) have "words ! 0 \<notin> set possessives"
      by (simp add: words_def)
    with True i0 show ?thesis
      by (simp add: possessive_patterns_def words_def [symmetric] Let_def fallback_Inr
          cond_err_def elem_in_def bind_err_def del: set_simps)
  qed
  have "statement_patterns U d s (strip (lower U s)) (parse_sentence U s)
      = Inr (join sp (map (translate_word U d) (split s)))"
  proof -
    have c3: "(truthy (subject (parse_sentence U s)) \<and> truthy (adjective (parse_sentence U s)))
        = False"
      using assms(5) by blast
    have c4: "(truthy (subject (parse_sentence U s)) \<and> truthy (object (parse_sentence U s)) \<and>
        truthy (verb (parse_sentence U s))) = False"
      using assms(6) by blast
    have c5: "(truthy (subject (parse_sentence U s)) \<and> truthy (verb (parse_sentence U s)))
        = False"
      using assms(7) by blast
    show ?thesis
      unfolding statement_patterns_def c3 c4 c5 by (simp only: if_False poss)
  qed
  moreover have q1: "(question_type (parse_sentence U s) = Some (u ''how_are'')) = False"
    using assms(2) by blast
  moreover have q2: "(question_type (parse_sentence U s) = Some (u ''where'') \<and>
      truthy (object (parse_sentence U s))) = False"
    using assms(3) by blast
  moreover have q3: "(question_type (parse_sentence U s) = Some (u ''do_you_have'') \<and>
      truthy (object (parse_sentence U s))) = False"
    using assms(4) by blast
  ultimately show ?thesis
    unfolding generate_translation_def Let_def assms(1) q1 q2 q3
    by (simp only: if_False option.case sp_def)
qed

text \<open>
  \<^verbatim>\<open>"hello  Big World"\<close> with an empty phrase dictionary: the only slot filled is the
  adjective, and the original casing of the unknown tokens is kept.
\<close>

theorem fallback_when_no_rule_matches_witness:
  "Map.empty (strip (lower id (u ''hello  Big World''))) = (None :: ustr option) \<and>
   question_type (parse_sentence id (u ''hello  Big World'')) \<noteq> Some (u ''how_are'') \<and>
   \<not> (question_type (parse_sentence id (u ''hello  Big World'')) = Some (u ''where'') \<and>
      truthy (object (parse_sentence id (u ''hello  Big World'')))) \<and>
   \<not> (question_type (parse_sentence id (u ''hello  Big World'')) = Some (u ''do_you_have'') \<and>
      truthy (object (parse_sentence id (u ''hello  Big World'')))) \<and>
   \<not> (truthy (subject (parse_sentence id (u ''hello  Big World''))) \<and>
      truthy (adjective (parse_sentence id (u ''hello  Big World'')))) \<and>
   \<not> (truthy (subject (parse_sentence id (u ''hello  Big World''))) \<and>
      truthy (object (parse_sentence id (u ''hello  Big World''))) \<and>
      truthy (verb (parse_sentence id (u ''hello  Big World'')))) \<and>
   \<not> (truthy (subject (parse_sentence id (u ''hello  Big World''))) \<and>
      truthy (verb (parse_sentence id (u ''hello  Big World'')))) \<and>
   \<not> (2 \<le> length (split (strip (lower id (u ''hello  Big World'')))) \<and>
      split (strip (lower id (u ''hello  Big World''))) ! 0 \<in> set possessives) \<and>
   generate_translation id Map.empty (u ''hello  Big World'') = Inr (u ''hello toru World'')"
proof -
  have p: "parse_sentence id (u ''hello  Big World'')
      = empty_parsed\<lparr>adjective := Some (u ''big'')\<rparr>"
    by (simp add: parse_sentence_def parse_defs string_defs table_defs)
  have w0: "\<not> (2 \<le> length (split (strip (lower id (u ''hello  Big World'')))) \<and>
      split (strip (lower id (u ''hello  Big World''))) ! 0 \<in> set possessives)"
    by (simp add: string_defs possessives_def)
  have out: "join (u '' '') (map (translate_word id Map.empty) (split (u ''hello  Big World'')))
      = u ''hello toru World''"
    by (simp add: translate_word_def Let_def string_defs table_defs)
  have slots: "subject (parse_sentence id (u ''hello  Big World'')) = None"
    "question_type (parse_sentence id (u ''hello  Big World'')) = None"
    unfolding p by (simp_all add: empty_parsed_def)
  show ?thesis
    using w0 fallback_when_no_rule_matches [of Map.empty id "u ''hello  Big World''"]
    unfolding out
    by (simp add: slots truthy_def)
qed

subsection \<open>Example sentences\<close>

text \<open>
  C8. \<^verbatim>\<open>"she goes home"\<close>, not a key of the phrase dictionary: \<^verbatim>\<open>home\<close> is in no
  table, so the parse holds the subject \<^verbatim>\<open>she\<close> and the verb \<^verbatim>\<open>goes\<close> and nothing
  else (no object, no location, no time), and the last branch of the subject and verb
  template returns the two translations joined by a space.
\<close>

theorem she_goes_home:
  assumes "d (strip (lower U (u ''she goes home''))) = None"
  shows "parse_sentence U (u ''she goes home'')
           = empty_parsed\<lparr>subject := Some (u ''she''), verb := Some (u ''goes'')\<rparr> \<and>
         object (parse_sentence U (u ''she goes home'')) = None \<and>
         location (parse_sentence U (u ''she goes home'')) = None \<and>
         generate_translation U d (u ''she goes home'')
           = Inr (translate_word U d (u ''she'') @ u '' '' @ translate_word U d (u ''goes''))"
proof -
  have p: "parse_sentence U (u ''she goes home'')
      = empty_parsed\<lparr>subject := Some (u ''she''), verb := Some (u ''goes'')\<rparr>"
    by (simp add: parse_sentence_def parse_defs string_defs table_defs)
  have g: "generate_translation U d (u ''she goes home'')
      = Inr (translate_word U d (u ''she'') @ u '' '' @ translate_word U d (u ''goes''))"
    using assms unfolding generate_translation_def Let_def p
    by (simp add: statement_patterns_def translate_slot_def slot_in_def bind_err_def sp_def
        truthy_def empty_parsed_def u_def)
  show ?thesis
    unfolding g unfolding p by (simp add: empty_parsed_def)
qed

theorem she_goes_home_witness:
  "Map.empty (strip (lower id (u ''she goes home''))) = (None :: ustr option) \<and>
   parse_sentence id (u ''she goes home'')
     = empty_parsed\<lparr>subject := Some (u ''she''), verb := Some (u ''goes'')\<rparr> \<and>
   generate_translation id Map.empty (u ''she goes home'') = Inr (u ''A gha'')"
proof -
  have t: "translate_word id Map.empty (u ''she'') @ u '' '' @ translate_word id Map.empty (u ''goes'')
      = u ''A gha''"
    by (simp add: translate_word_def Let_def string_defs table_defs)
  show ?thesis
    using she_goes_home [of Map.empty id] unfolding t by simp
qed

text \<open>
  C4. \<^verbatim>\<open>"I am happy"\<close>. The pronoun table has the key \<^verbatim>\<open>"I"\<close>, and
  \<^verbatim>\<open>classify_word\<close> looks up the lower-cased token \<^verbatim>\<open>"i"\<close>, which is in no table: the
  subject slot stays empty, the subject and adjective template does not apply, and with an
  empty phrase dictionary the word-by-word fallback returns \<^verbatim>\<open>"I ye hapi"\<close>, not the
  sentence the template would build.
\<close>

theorem i_am_happy_has_no_subject:
  "classify_word U (u ''i'') = UNKNOWN \<and>
   parse_sentence U (u ''I am happy'')
     = empty_parsed\<lparr>verb := Some (u ''am''), adjective := Some (u ''happy'')\<rparr> \<and>
   subject (parse_sentence U (u ''I am happy'')) = None \<and>
   generate_translation U Map.empty (u ''I am happy'') = Inr (u ''I ye hapi'') \<and>
   generate_translation U Map.empty (u ''I am happy'')
     \<noteq> Inr (translate_word U Map.empty (u ''i'') @ u '' '' @
            translate_word U Map.empty (u ''happy'') @ u '' ye'')"
proof -
  have c: "classify_word U (u ''i'') = UNKNOWN"
    by (simp add: classify_word_def Let_def string_defs table_defs)
  have p: "parse_sentence U (u ''I am happy'')
      = empty_parsed\<lparr>verb := Some (u ''am''), adjective := Some (u ''happy'')\<rparr>"
    by (simp add: parse_sentence_def parse_defs string_defs table_defs)
  have f: "fallback U Map.empty (u ''I am happy'') = Inr (u ''I ye hapi'')"
    by (simp add: fallback_def sp_def translate_word_def Let_def string_defs table_defs)
  have n: "strip (lower U (u ''I am happy'')) = u ''i am happy''"
    by (simp add: string_defs)
  have w: "split (u ''i am happy'') = [u ''i'', u ''am'', u ''happy'']"
    by (simp add: string_defs)
  have g: "generate_translation U Map.empty (u ''I am happy'') = Inr (u ''I ye hapi'')"
    unfolding generate_translation_def Let_def p n
    by (simp add: statement_patterns_def possessive_patterns_def Let_def w f cond_err_def
        elem_in_def index_def bind_err_def possessives_def truthy_def empty_parsed_def
        u_Cons_not_Nil)
      (simp add: u_def)
  have t: "translate_word U Map.empty (u ''i'') @ u '' '' @
      translate_word U Map.empty (u ''happy'') @ u '' ye'' = u ''i hapi ye''"
    by (simp add: translate_word_def Let_def string_defs table_defs)
  have d: "u ''I ye hapi'' \<noteq> u ''i hapi ye''"
    by (simp add: u_def)
  show ?thesis
    unfolding g t unfolding p using c d by (simp add: empty_parsed_def)
qed

text \<open>
  C5. \<^verbatim>\<open>"where is the river?"\<close>. The tokens are split at whitespace only, so the last
  one is \<^verbatim>\<open>"river?"\<close> with the question mark, which is not a noun of the table: the
  question type is \<^verbatim>\<open>where\<close> but the object slot stays empty, the where template does
  not apply, and with an empty phrase dictionary the fallback returns
  \<^verbatim>\<open>"where ye the river?"\<close>.
\<close>

theorem where_is_the_river_has_no_object:
  "split (strip (lower U (u ''where is the river?'')))
     = [u ''where'', u ''is'', u ''the'', u ''river?''] \<and>
   classify_word U (u ''river?'') = UNKNOWN \<and>
   parse_sentence U (u ''where is the river?'')
     = empty_parsed\<lparr>verb := Some (u ''is''), question_type := Some (u ''where'')\<rparr> \<and>
   object (parse_sentence U (u ''where is the river?'')) = None \<and>
   generate_translation U Map.empty (u ''where is the river?'') = Inr (u ''where ye the river?'') \<and>
   generate_translation U Map.empty (u ''where is the river?'')
     \<noteq> Inr (translate_word U Map.empty (u ''river'') @ [32, 107, 237, 32, 121, 101, 63])"
proof -
  have n: "strip (lower U (u ''where is the river?'')) = u ''where is the river?''"
    by (simp add: string_defs)
  have w: "split (u ''where is the river?'') = [u ''where'', u ''is'', u ''the'', u ''river?'']"
    by (simp add: string_defs)
  have c: "classify_word U (u ''river?'') = UNKNOWN"
    by (simp add: classify_word_def Let_def string_defs table_defs)
  have p: "parse_sentence U (u ''where is the river?'')
      = empty_parsed\<lparr>verb := Some (u ''is''), question_type := Some (u ''where'')\<rparr>"
    by (simp add: parse_sentence_def parse_defs string_defs table_defs)
  have f: "fallback U Map.empty (u ''where is the river?'') = Inr (u ''where ye the river?'')"
    by (simp add: fallback_def sp_def translate_word_def Let_def string_defs table_defs)
  have g: "generate_translation U Map.empty (u ''where is the river?'')
      = Inr (u ''where ye the river?'')"
    unfolding generate_translation_def Let_def p n
    by (simp add: statement_patterns_def possessive_patterns_def Let_def w f cond_err_def
        elem_in_def index_def bind_err_def possessives_def truthy_def empty_parsed_def
        u_Cons_not_Nil)
      (simp add: u_def)
  have t: "translate_word U Map.empty (u ''river'') = [7885, 769, 119, 7909]"
    by (simp add: translate_word_def Let_def string_defs table_defs)
  have d: "u ''where ye the river?'' \<noteq> [7885, 769, 119, 7909] @ [32, 107, 237, 32, 121, 101, 63]"
    by (simp add: u_def)
  show ?thesis
    unfolding g t n w unfolding p using c d by (simp add: empty_parsed_def)
qed

text \<open>
  Without the question mark the noun is recognised and the where template applies.
\<close>

lemma where_is_the_river_unmarked:
  "object (parse_sentence U (u ''where is the river'')) = Some (u ''river'') \<and>
   generate_translation U Map.empty (u ''where is the river'')
     = Inr ([7885, 769, 119, 7909] @ [32, 107, 237, 32, 121, 101, 63])"
proof -
  have n: "strip (lower U (u ''where is the river'')) = u ''where is the river''"
    by (simp add: string_defs)
  have p: "parse_sentence U (u ''where is the river'')
      = empty_parsed\<lparr>object := Some (u ''river''), verb := Some (u ''is''),
          question_type := Some (u ''where'')\<rparr>"
    by (simp add: parse_sentence_def parse_defs string_defs table_defs)
  have t: "translate_word U Map.empty (u ''river'') = [7885, 769, 119, 7909]"
    by (simp add: translate_word_def Let_def string_defs table_defs)
  have g: "generate_translation U Map.empty (u ''where is the river'')
      = Inr ([7885, 769, 119, 7909] @ [32, 107, 237, 32, 121, 101, 63])"
    unfolding generate_translation_def Let_def p n
    by (simp add: translate_slot_def bind_err_def t truthy_def empty_parsed_def u_Cons_not_Nil)
      (simp add: u_def)
  show ?thesis
    unfolding g unfolding p by (simp add: empty_parsed_def)
qed

end
